theory Spec2Isabelle
  imports Main "HOL-Library.Finite_Map" "HOL-Library.AList"
begin

section \<open>Time\<close>

text \<open>
  A \<^verbatim>\<open>time.Time\<close> is an instant in nanoseconds on the clock's line, a
  \<^verbatim>\<open>time.Duration\<close> a count of nanoseconds held in an int64. The standard library's
  \<^verbatim>\<open>t.Sub(u)\<close> returns \<open>t - u\<close>, replaced by the largest (smallest) duration when
  the difference does not fit; \<^verbatim>\<open>time.Since(t)\<close> is \<^verbatim>\<open>time.Now().Sub(t)\<close>. The
  reading of the clock is an argument of every function that looks at it.
\<close>

type_synonym Time = int
type_synonym Duration = int

definition maxDuration :: Duration where
  "maxDuration = 2 ^ 63 - 1"

definition minDuration :: Duration where
  "minDuration = - (2 ^ 63)"

definition Sub :: "Time \<Rightarrow> Time \<Rightarrow> Duration" where
  "Sub t u = (if t - u > maxDuration then maxDuration
              else if t - u < minDuration then minDuration
              else t - u)"

definition Since :: "Time \<Rightarrow> Time \<Rightarrow> Duration" where
  "Since now t = Sub now t"

definition Minute :: Duration where
  "Minute = 60 * 1000000000"

section \<open>Cache entries and the cache store\<close>

text \<open>
  \<^verbatim>\<open>http.Header\<close> is a \<^verbatim>\<open>map[string][]string\<close>. It is kept as an association
  list: the order of the list is the order in which a \<^verbatim>\<open>range\<close> over the map visits
  the keys, which Go leaves open.
\<close>

type_synonym Header = "(string \<times> string list) list"

record CacheEntry =
  Body :: string
  Headers :: Header
  StatusCode :: int
  Timestamp :: Time
  TTL :: Duration

text \<open>
  \<^verbatim>\<open>sync.RWMutex\<close> (standard library): held by any number of readers or by one
  writer. A new mutex is unlocked.
\<close>

record RWMutex =
  readers :: nat
  writer :: bool

record Cache =
  entries :: "(string, CacheEntry) fmap"
  mutex :: RWMutex

definition NewCache :: Cache where
  "NewCache = \<lparr>entries = fmempty, mutex = \<lparr>readers = 0, writer = False\<rparr>\<rparr>"

text \<open>
  The four methods of the store, each called on its own on an unlocked store: the method
  takes the lock, runs and releases the lock when it returns, so the mutex is afterwards
  as it was before. The steps of a call among other calls are modelled further down.

  \<^verbatim>\<open>Cache.Get\<close>: the pair \<^verbatim>\<open>(entry, true)\<close> is \<open>Some entry\<close>, the pair
  \<^verbatim>\<open>(nil, false)\<close> is \<open>None\<close>; the second component is the store after the call.
\<close>

definition Cache_Get :: "Cache \<Rightarrow> Time \<Rightarrow> string \<Rightarrow> CacheEntry option \<times> Cache" where
  "Cache_Get c now key =
     (case fmlookup (entries c) key of
        None \<Rightarrow> (None, c)
      | Some entry \<Rightarrow>
          if Since now (Timestamp entry) > TTL entry
          then (None, c\<lparr>entries := fmdrop key (entries c)\<rparr>)
          else (Some entry, c))"

definition Cache_Set :: "Cache \<Rightarrow> string \<Rightarrow> CacheEntry \<Rightarrow> Cache" where
  "Cache_Set c key entry = c\<lparr>entries := fmupd key entry (entries c)\<rparr>"

definition Cache_Clear :: "Cache \<Rightarrow> Cache" where
  "Cache_Clear c = c\<lparr>entries := fmempty\<rparr>"

definition Cache_Size :: "Cache \<Rightarrow> int" where
  "Cache_Size c = int (fcard (fmdom (entries c)))"

section \<open>Header maps\<close>

text \<open>
  The methods of \<^verbatim>\<open>http.Header\<close> (standard library, \<^verbatim>\<open>net/textproto\<close>) bring the
  name they are given into canonical form first: the first letter and every letter after
  a hyphen in upper case, the others in lower case; a name with a byte that is not a
  token byte is left as it is.
\<close>

definition validHeaderFieldByte :: "char \<Rightarrow> bool" where
  "validHeaderFieldByte c =
     (let n = (of_char c :: nat) in
        (97 \<le> n \<and> n \<le> 122) \<or> (65 \<le> n \<and> n \<le> 90) \<or> (48 \<le> n \<and> n \<le> 57) \<or>
        List.member [33, 35, 36, 37, 38, 39, 42, 43, 45, 46, 94, 95, 96, 124, 126] n)"

fun canonicalMIMEHeaderKey :: "bool \<Rightarrow> string \<Rightarrow> string" where
  "canonicalMIMEHeaderKey upper [] = []"
| "canonicalMIMEHeaderKey upper (c # cs) =
     (let n = (of_char c :: nat);
          c' = (if upper \<and> 97 \<le> n \<and> n \<le> 122 then char_of (n - 32)
                else if \<not> upper \<and> 65 \<le> n \<and> n \<le> 90 then char_of (n + 32)
                else c)
      in c' # canonicalMIMEHeaderKey (c' = CHR ''-'') cs)"

definition CanonicalMIMEHeaderKey :: "string \<Rightarrow> string" where
  "CanonicalMIMEHeaderKey s =
     (if list_all validHeaderFieldByte s then canonicalMIMEHeaderKey True s else s)"

definition Header_Values :: "Header \<Rightarrow> string \<Rightarrow> string list" where
  "Header_Values h key =
     (case map_of h (CanonicalMIMEHeaderKey key) of None \<Rightarrow> [] | Some vs \<Rightarrow> vs)"

definition Header_Get :: "Header \<Rightarrow> string \<Rightarrow> string" where
  "Header_Get h key = (case Header_Values h key of [] \<Rightarrow> [] | v # _ \<Rightarrow> v)"

definition Header_Add :: "Header \<Rightarrow> string \<Rightarrow> string \<Rightarrow> Header" where
  "Header_Add h key val =
     AList.update (CanonicalMIMEHeaderKey key) (Header_Values h key @ [val]) h"

definition Header_Set :: "Header \<Rightarrow> string \<Rightarrow> string \<Rightarrow> Header" where
  "Header_Set h key val = AList.update (CanonicalMIMEHeaderKey key) [val] h"

definition Header_Del :: "Header \<Rightarrow> string \<Rightarrow> Header" where
  "Header_Del h key = AList.delete (CanonicalMIMEHeaderKey key) h"

section \<open>The client-facing response writer\<close>

text \<open>
  The \<^verbatim>\<open>http.ResponseWriter\<close> a handler is given is the server's (standard library,
  not part of this repository). It is modelled from its documentation:
  \<^item> \<^verbatim>\<open>Header()\<close> returns the header map \<open>handlerHeader\<close>, which the handler
    changes in place;
  \<^item> \<^verbatim>\<open>WriteHeader(code)\<close> sends the status line and the header map as it is at
    that moment (\<open>sentHeader\<close>); changes of the map after that are not sent. A second
    call is ignored (and logged), a code outside 100..999 panics (\<open>None\<close>), and an
    informational code (1xx other than 101) does not commit the response;
  \<^item> \<^verbatim>\<open>Write(data)\<close> calls \<^verbatim>\<open>WriteHeader(200)\<close> first when no header was
    written yet;
  \<^item> when the handler returns without having written a header, the server writes
    \<^verbatim>\<open>WriteHeader(200)\<close> itself (\<open>finishRequest\<close>).
  \<open>sentBody\<close> is the sequence of bytes handed to \<^verbatim>\<open>Write\<close>; what the transport
  does with them (no body for HEAD, 204 and 304, framing, the headers it adds) is not
  modelled.
\<close>

record response =
  handlerHeader :: Header
  wroteHeader :: bool
  status :: int
  sentHeader :: Header
  sentBody :: string

definition commit :: "response \<Rightarrow> int \<Rightarrow> response" where
  "commit w code = w\<lparr>wroteHeader := True, status := code, sentHeader := handlerHeader w\<rparr>"

definition response_WriteHeader :: "response \<Rightarrow> int \<Rightarrow> response option" where
  "response_WriteHeader w code =
     (if wroteHeader w then Some w
      else if code < 100 \<or> code > 999 then None
      else if 100 \<le> code \<and> code \<le> 199 \<and> code \<noteq> 101 then Some w
      else Some (commit w code))"

definition response_Write :: "response \<Rightarrow> string \<Rightarrow> response" where
  "response_Write w data =
     (let w' = (if wroteHeader w then w else commit w 200)
      in w'\<lparr>sentBody := sentBody w' @ data\<rparr>)"

definition finishRequest :: "response \<Rightarrow> response" where
  "finishRequest w = (if wroteHeader w then w else commit w 200)"

text \<open>The writer a handler receives for a new request.\<close>

definition newResponse :: response where
  "newResponse = \<lparr>handlerHeader = [], wroteHeader = False, status = 0,
                   sentHeader = [], sentBody = []\<rparr>"

section \<open>The response recorder\<close>

record responseRecorder =
  ResponseWriter :: response
  statusCode :: int
  headers :: Header
  body :: string

definition responseRecorder_WriteHeader :: "responseRecorder \<Rightarrow> int \<Rightarrow> responseRecorder option" where
  "responseRecorder_WriteHeader rr code =
     (case response_WriteHeader (ResponseWriter rr) code of
        None \<Rightarrow> None
      | Some w' \<Rightarrow> Some (rr\<lparr>statusCode := code, ResponseWriter := w'\<rparr>))"

definition responseRecorder_Write :: "responseRecorder \<Rightarrow> string \<Rightarrow> responseRecorder" where
  "responseRecorder_Write rr data =
     rr\<lparr>body := body rr @ data, ResponseWriter := response_Write (ResponseWriter rr) data\<rparr>"

definition responseRecorder_Header :: "responseRecorder \<Rightarrow> Header" where
  "responseRecorder_Header rr = headers rr"

section \<open>The forwarding collaborator\<close>

text \<open>
  \<^verbatim>\<open>httputil.ReverseProxy.ServeHTTP\<close> (standard library) talks to the origin and then
  drives the \<^verbatim>\<open>http.ResponseWriter\<close> it was given. What it does to that writer is a
  sequence of calls of the interface's three methods: changes of the map \<^verbatim>\<open>Header()\<close>
  returns, \<^verbatim>\<open>WriteHeader\<close> and \<^verbatim>\<open>Write\<close>. The sequence is an argument of the
  model, so every answer of every origin is covered, a failed exchange with its 502
  included. A panic of the real writer ends the run (\<open>None\<close>); a run the reverse proxy
  aborts by a panic of its own never returns to the handler and is not a sequence here.
\<close>

datatype call =
    HeaderAdd string string
  | HeaderSet string string
  | HeaderDel string
  | WriteHeader int
  | Write string

fun recorder_call :: "responseRecorder \<Rightarrow> call \<Rightarrow> responseRecorder option" where
  "recorder_call rr (HeaderAdd k v) =
     Some (rr\<lparr>headers := Header_Add (responseRecorder_Header rr) k v\<rparr>)"
| "recorder_call rr (HeaderSet k v) =
     Some (rr\<lparr>headers := Header_Set (responseRecorder_Header rr) k v\<rparr>)"
| "recorder_call rr (HeaderDel k) =
     Some (rr\<lparr>headers := Header_Del (responseRecorder_Header rr) k\<rparr>)"
| "recorder_call rr (WriteHeader code) = responseRecorder_WriteHeader rr code"
| "recorder_call rr (Write data) = Some (responseRecorder_Write rr data)"

fun ServeHTTP :: "responseRecorder \<Rightarrow> call list \<Rightarrow> responseRecorder option" where
  "ServeHTTP rr [] = Some rr"
| "ServeHTTP rr (c # cs) =
     (case recorder_call rr c of None \<Rightarrow> None | Some rr' \<Rightarrow> ServeHTTP rr' cs)"

text \<open>The same calls made on the client-facing writer itself, with no recorder between.\<close>

fun response_call :: "response \<Rightarrow> call \<Rightarrow> response option" where
  "response_call w (HeaderAdd k v) = Some (w\<lparr>handlerHeader := Header_Add (handlerHeader w) k v\<rparr>)"
| "response_call w (HeaderSet k v) = Some (w\<lparr>handlerHeader := Header_Set (handlerHeader w) k v\<rparr>)"
| "response_call w (HeaderDel k) = Some (w\<lparr>handlerHeader := Header_Del (handlerHeader w) k\<rparr>)"
| "response_call w (WriteHeader code) = response_WriteHeader w code"
| "response_call w (Write data) = Some (response_Write w data)"

fun response_calls :: "response \<Rightarrow> call list \<Rightarrow> response option" where
  "response_calls w [] = Some w"
| "response_calls w (c # cs) =
     (case response_call w c of None \<Rightarrow> None | Some w' \<Rightarrow> response_calls w' cs)"

section \<open>The proxy server\<close>

text \<open>
  Of a request the handler reads the method, the text \<^verbatim>\<open>req.URL.String()\<close> returns
  (\<open>URL_String\<close>) and the header map.
\<close>

record Request =
  Method :: string
  URL_String :: string
  Header :: Header

record URL =
  Scheme :: string
  Opaque :: string
  Host :: string
  Path :: string
  RawQuery :: string
  Fragment :: string

record ProxyServer =
  origin :: URL
  cache :: Cache
  port :: int

text \<open>
  \<^verbatim>\<open>fmt.Sprintf("%s:%s:%s", a, b, c)\<close>, \<^verbatim>\<open>hex.EncodeToString\<close> and
  \<^verbatim>\<open>generateCacheKey\<close>. The digest \<^verbatim>\<open>md5.Sum\<close> (standard library) is the
  argument \<open>md5_Sum\<close>: what is proved holds for every function from bytes to bytes.
\<close>

definition Sprintf :: "string \<Rightarrow> string \<Rightarrow> string \<Rightarrow> string" where
  "Sprintf a b c = a @ '':'' @ b @ '':'' @ c"

definition EncodeToString :: "string \<Rightarrow> string" where
  "EncodeToString src =
     concat (map (\<lambda>c. [''0123456789abcdef'' ! ((of_char c :: nat) div 16),
                         ''0123456789abcdef'' ! ((of_char c :: nat) mod 16)]) src)"

definition generateCacheKey :: "(string \<Rightarrow> string) \<Rightarrow> Request \<Rightarrow> string" where
  "generateCacheKey md5_Sum req =
     (let data = Sprintf (Method req) (URL_String req) (Header_Get (Header req) ''User-Agent'');
          hash = md5_Sum data
      in EncodeToString hash)"

text \<open>
  \<^verbatim>\<open>handleRequest\<close>. \<open>t_get\<close> is the clock when \<^verbatim>\<open>Get\<close> reads it, \<open>t_set\<close>
  the clock when the new entry is stamped, \<open>upstream\<close> the calls the reverse proxy
  makes for this request once its target is rewritten to the origin. The result is the
  writer and the server when the handler returns, \<open>None\<close> when it panics. Logging is
  left out.
\<close>

definition handleRequest ::
  "(string \<Rightarrow> string) \<Rightarrow> ProxyServer \<Rightarrow> Time \<Rightarrow> Time \<Rightarrow> call list \<Rightarrow> response \<Rightarrow> Request
     \<Rightarrow> (response \<times> ProxyServer) option" where
  "handleRequest md5_Sum ps t_get t_set upstream w req =
     (let cacheKey = generateCacheKey md5_Sum req;
          (found, cache1) = Cache_Get (cache ps) t_get cacheKey
      in case found of
           Some cachedEntry \<Rightarrow>
             (let h1 = foldl (\<lambda>h (key, vals). foldl (\<lambda>h val. Header_Add h key val) h vals)
                         (handlerHeader w) (Headers cachedEntry);
                  w1 = w\<lparr>handlerHeader := Header_Set h1 ''X-Cache'' ''HIT''\<rparr>
              in case response_WriteHeader w1 (StatusCode cachedEntry) of
                   None \<Rightarrow> None
                 | Some w2 \<Rightarrow> Some (response_Write w2 (Body cachedEntry), ps\<lparr>cache := cache1\<rparr>))
         | None \<Rightarrow>
             (let recorder = \<lparr>ResponseWriter = w, statusCode = 200, headers = [], body = []\<rparr>
              in case ServeHTTP recorder upstream of
                   None \<Rightarrow> None
                 | Some recorder' \<Rightarrow>
                     (let cache2 =
                            (if statusCode recorder' \<ge> 200 \<and> statusCode recorder' < 400
                             then Cache_Set cache1 cacheKey
                                    \<lparr>Body = body recorder', Headers = headers recorder',
                                     StatusCode = statusCode recorder',
                                     Timestamp = t_set, TTL = 5 * Minute\<rparr>
                             else cache1);
                          w' = ResponseWriter recorder'
                      in Some (w'\<lparr>handlerHeader := Header_Set (handlerHeader w') ''X-Cache'' ''MISS''\<rparr>,
                               ps\<lparr>cache := cache2\<rparr>))))"

section \<open>Construction of the server\<close>

text \<open>
  \<^verbatim>\<open>url.Parse\<close> belongs to the standard library (\<^verbatim>\<open>net/url\<close>). \<open>url_Parse\<close> follows
  it on plain input: text made of letters, digits and the bytes \<^verbatim>\<open>- . _ ~ + : / ? #\<close>.
  On such text nothing is percent-decoded, there is no user information and no bracketed
  IP literal, and the only errors are a missing scheme before a leading colon, a colon in
  the first segment of a relative path, and a port that is not a number. Of the URL the
  record keeps the scheme, the opaque part, the host, the path, the query and the
  fragment.
\<close>

datatype url_error =
    InvalidControlCharacter
  | MissingProtocolScheme
  | FirstPathSegmentColon
  | InvalidPort string

definition isLetter :: "char \<Rightarrow> bool" where
  "isLetter c = (let n = (of_char c :: nat) in (97 \<le> n \<and> n \<le> 122) \<or> (65 \<le> n \<and> n \<le> 90))"

definition isDigit :: "char \<Rightarrow> bool" where
  "isDigit c = (let n = (of_char c :: nat) in 48 \<le> n \<and> n \<le> 57)"

definition plain :: "string \<Rightarrow> bool" where
  "plain s = list_all (\<lambda>c. isLetter c \<or> isDigit c \<or> List.member ''-._~+:/?#'' c) s"

definition stringContainsCTLByte :: "string \<Rightarrow> bool" where
  "stringContainsCTLByte s = list_ex (\<lambda>c. (of_char c :: nat) < 32 \<or> (of_char c :: nat) = 127) s"

definition ToLower :: "string \<Rightarrow> string" where
  "ToLower s = map (\<lambda>c. let n = (of_char c :: nat) in if 65 \<le> n \<and> n \<le> 90 then char_of (n + 32) else c) s"

definition HasPrefix :: "string \<Rightarrow> string \<Rightarrow> bool" where
  "HasPrefix s p = (take (length p) s = p)"

text \<open>\<^verbatim>\<open>strings.Cut\<close> at a separator of one byte: the text before and after its first occurrence.\<close>

definition Cut :: "string \<Rightarrow> char \<Rightarrow> string \<times> string" where
  "Cut s sep = (takeWhile (\<lambda>c. c \<noteq> sep) s, drop 1 (dropWhile (\<lambda>c. c \<noteq> sep) s))"

text \<open>
  \<^verbatim>\<open>getScheme\<close>: the loop over the bytes of \<open>rawURL\<close>, at index \<open>i\<close> with
  \<open>cs\<close> still to read.
\<close>

fun getScheme_loop :: "string \<Rightarrow> nat \<Rightarrow> string \<Rightarrow> url_error + (string \<times> string)" where
  "getScheme_loop rawURL i [] = Inr ([], rawURL)"
| "getScheme_loop rawURL i (c # cs) =
     (if isLetter c then getScheme_loop rawURL (i + 1) cs
      else if isDigit c \<or> c = CHR ''+'' \<or> c = CHR ''-'' \<or> c = CHR ''.'' then
        (if i = 0 then Inr ([], rawURL) else getScheme_loop rawURL (i + 1) cs)
      else if c = CHR '':'' then
        (if i = 0 then Inl MissingProtocolScheme else Inr (take i rawURL, cs))
      else Inr ([], rawURL))"

definition getScheme :: "string \<Rightarrow> url_error + (string \<times> string)" where
  "getScheme rawURL = getScheme_loop rawURL 0 rawURL"

definition validOptionalPort :: "string \<Rightarrow> bool" where
  "validOptionalPort colonPort =
     (case colonPort of [] \<Rightarrow> True | c # cs \<Rightarrow> c = CHR '':'' \<and> list_all isDigit cs)"

definition parseHost :: "string \<Rightarrow> url_error + string" where
  "parseHost host =
     (if List.member host CHR '':'' then
        (let colonPort = CHR '':'' # rev (takeWhile (\<lambda>c. c \<noteq> CHR '':'') (rev host))
         in if validOptionalPort colonPort then Inr host else Inl (InvalidPort colonPort))
      else Inr host)"

definition parse :: "string \<Rightarrow> url_error + URL" where
  "parse rawURL =
     (if stringContainsCTLByte rawURL then Inl InvalidControlCharacter
      else if rawURL = ''*'' then
        Inr \<lparr>Scheme = [], Opaque = [], Host = [], Path = ''*'', RawQuery = [], Fragment = []\<rparr>
      else
        case getScheme rawURL of
          Inl err \<Rightarrow> Inl err
        | Inr (scheme0, rest0) \<Rightarrow>
            (let scheme = ToLower scheme0;
                 (rest, query) = Cut rest0 CHR ''?''
             in if \<not> HasPrefix rest ''/'' \<and> scheme \<noteq> [] then
                  Inr \<lparr>Scheme = scheme, Opaque = rest, Host = [], Path = [], RawQuery = query,
                       Fragment = []\<rparr>
                else if \<not> HasPrefix rest ''/'' \<and> List.member (fst (Cut rest CHR ''/'')) CHR '':'' then
                  Inl FirstPathSegmentColon
                else if (scheme \<noteq> [] \<or> \<not> HasPrefix rest ''///'') \<and> HasPrefix rest ''//'' then
                  (let authority = takeWhile (\<lambda>c. c \<noteq> CHR ''/'') (drop 2 rest);
                       path = dropWhile (\<lambda>c. c \<noteq> CHR ''/'') (drop 2 rest)
                   in case parseHost authority of
                        Inl err \<Rightarrow> Inl err
                      | Inr host \<Rightarrow>
                          Inr \<lparr>Scheme = scheme, Opaque = [], Host = host, Path = path,
                               RawQuery = query, Fragment = []\<rparr>)
                else
                  Inr \<lparr>Scheme = scheme, Opaque = [], Host = [], Path = rest, RawQuery = query,
                       Fragment = []\<rparr>))"

definition url_Parse :: "string \<Rightarrow> url_error + URL" where
  "url_Parse rawURL =
     (let (u, frag) = Cut rawURL CHR ''#''
      in case parse u of
           Inl err \<Rightarrow> Inl err
         | Inr url \<Rightarrow> Inr (url\<lparr>Fragment := frag\<rparr>))"

definition IsAbs :: "URL \<Rightarrow> bool" where
  "IsAbs u = (Scheme u \<noteq> [])"

text \<open>
  \<^verbatim>\<open>NewProxyServer\<close>. The parser is the argument \<open>url_parse\<close>, so that what is
  proved of the constructor holds whatever \<^verbatim>\<open>url.Parse\<close> does on text that is not
  plain. The error of \<^verbatim>\<open>fmt.Errorf("invalid origin URL: %v", err)\<close> keeps its cause.
\<close>

datatype error = InvalidOriginURL url_error

definition NewProxyServer ::
  "(string \<Rightarrow> url_error + URL) \<Rightarrow> string \<Rightarrow> int \<Rightarrow> error + ProxyServer" where
  "NewProxyServer url_parse originURL portNumber =
     (case url_parse originURL of
        Inl err \<Rightarrow> Inl (InvalidOriginURL err)
      | Inr u \<Rightarrow> Inr \<lparr>origin = u, cache = NewCache, port = portNumber\<rparr>)"

section \<open>Calls of the store running side by side\<close>

text \<open>
  Each goroutine that calls a method of the store is at one of the places below. A step
  of a goroutine runs one statement of the method. \<^verbatim>\<open>RLock\<close> waits while a writer
  holds the mutex, \<^verbatim>\<open>Lock\<close> while anyone holds it (\<open>None\<close>: the goroutine cannot
  step now). That a waiting writer holds back new readers is left out; every run below
  in which no goroutine waits for \<^verbatim>\<open>Lock\<close> is a run of the real mutex. The deferred
  unlock is the last step before the call returns.
\<close>

datatype place =
    Get_RLock string Time
  | Get_lookup string Time
  | Get_delete string
  | Get_RUnlock "CacheEntry option"
  | Set_Lock string CacheEntry
  | Set_store string CacheEntry
  | Set_Unlock
  | Clear_Lock
  | Clear_make
  | Clear_Unlock
  | Returned "CacheEntry option"

fun step_place :: "Cache \<Rightarrow> place \<Rightarrow> (Cache \<times> place) option" where
  "step_place c (Get_RLock key now) =
     (if writer (mutex c) then None
      else Some (c\<lparr>mutex := (mutex c)\<lparr>readers := readers (mutex c) + 1\<rparr>\<rparr>, Get_lookup key now))"
| "step_place c (Get_lookup key now) =
     Some (c, case fmlookup (entries c) key of
                None \<Rightarrow> Get_RUnlock None
              | Some entry \<Rightarrow>
                  if Since now (Timestamp entry) > TTL entry then Get_delete key
                  else Get_RUnlock (Some entry))"
| "step_place c (Get_delete key) =
     Some (c\<lparr>entries := fmdrop key (entries c)\<rparr>, Get_RUnlock None)"
| "step_place c (Get_RUnlock r) =
     Some (c\<lparr>mutex := (mutex c)\<lparr>readers := readers (mutex c) - 1\<rparr>\<rparr>, Returned r)"
| "step_place c (Set_Lock key entry) =
     (if writer (mutex c) \<or> readers (mutex c) > 0 then None
      else Some (c\<lparr>mutex := (mutex c)\<lparr>writer := True\<rparr>\<rparr>, Set_store key entry))"
| "step_place c (Set_store key entry) =
     Some (c\<lparr>entries := fmupd key entry (entries c)\<rparr>, Set_Unlock)"
| "step_place c Set_Unlock =
     Some (c\<lparr>mutex := (mutex c)\<lparr>writer := False\<rparr>\<rparr>, Returned None)"
| "step_place c Clear_Lock =
     (if writer (mutex c) \<or> readers (mutex c) > 0 then None
      else Some (c\<lparr>mutex := (mutex c)\<lparr>writer := True\<rparr>\<rparr>, Clear_make))"
| "step_place c Clear_make = Some (c\<lparr>entries := fmempty\<rparr>, Clear_Unlock)"
| "step_place c Clear_Unlock =
     Some (c\<lparr>mutex := (mutex c)\<lparr>writer := False\<rparr>\<rparr>, Returned None)"
| "step_place c (Returned r) = Some (c, Returned r)"

text \<open>One step of goroutine \<open>i\<close>, and a run under a schedule: the goroutines to step, in order.\<close>

definition step :: "nat \<Rightarrow> Cache \<times> place list \<Rightarrow> (Cache \<times> place list) option" where
  "step i conf =
     (case conf of (c, ps) \<Rightarrow>
        if i < length ps then
          (case step_place c (ps ! i) of
             None \<Rightarrow> None
           | Some (c', p') \<Rightarrow> Some (c', ps[i := p']))
        else None)"

fun run :: "nat list \<Rightarrow> Cache \<times> place list \<Rightarrow> (Cache \<times> place list) option" where
  "run [] conf = Some conf"
| "run (i # sched) conf = (case step i conf of None \<Rightarrow> None | Some conf' \<Rightarrow> run sched conf')"

text \<open>A place whose step writes the map.\<close>

fun writesMap :: "place \<Rightarrow> bool" where
  "writesMap (Get_delete key) = True"
| "writesMap (Set_store key entry) = True"
| "writesMap Clear_make = True"
| "writesMap p = False"

section \<open>What the forwarding collaborator wrote\<close>

text \<open>
  Read off the sequence of calls alone: the bytes of its \<^verbatim>\<open>Write\<close> calls in
  order, the code of its last \<^verbatim>\<open>WriteHeader\<close> call (\<open>s\<close> when it made none), and
  the header map its header calls build from \<open>h\<close>.
\<close>

fun written :: "call list \<Rightarrow> string" where
  "written [] = []"
| "written (Write data # cs) = data @ written cs"
| "written (c # cs) = written cs"

fun lastStatus :: "int \<Rightarrow> call list \<Rightarrow> int" where
  "lastStatus s [] = s"
| "lastStatus s (WriteHeader code # cs) = lastStatus code cs"
| "lastStatus s (c # cs) = lastStatus s cs"

fun headerCalls :: "Header \<Rightarrow> call list \<Rightarrow> Header" where
  "headerCalls h [] = h"
| "headerCalls h (HeaderAdd k v # cs) = headerCalls (Header_Add h k v) cs"
| "headerCalls h (HeaderSet k v # cs) = headerCalls (Header_Set h k v) cs"
| "headerCalls h (HeaderDel k # cs) = headerCalls (Header_Del h k) cs"
| "headerCalls h (c # cs) = headerCalls h cs"

text \<open>Every status code the collaborator passes is one \<^verbatim>\<open>WriteHeader\<close> accepts.\<close>

definition validCodes :: "call list \<Rightarrow> bool" where
  "validCodes cs = (\<forall>code. WriteHeader code \<in> set cs \<longrightarrow> 100 \<le> code \<and> code \<le> 999)"

section \<open>Sample data\<close>

text \<open>
  The entry of the repository's expiry test: stamped two minutes before the clock reading
  \<open>sample_now\<close>, with a time to live of one minute.
\<close>

definition sample_now :: Time where
  "sample_now = 1000 * Minute"

definition expired_entry :: CacheEntry where
  "expired_entry = \<lparr>Body = ''expired response'', Headers = [], StatusCode = 200,
                      Timestamp = sample_now - 2 * Minute, TTL = 1 * Minute\<rparr>"

definition expired_cache :: Cache where
  "expired_cache = Cache_Set NewCache ''expired-key'' expired_entry"

text \<open>
  A request, a server with an empty store, what an origin answers, and the entry that
  answer leaves in the store. \<open>sample_Sum\<close> stands in for the digest in the examples.
\<close>

definition sample_Sum :: "string \<Rightarrow> string" where
  "sample_Sum data = take 16 data"

definition sample_request :: Request where
  "sample_request = \<lparr>Method = ''GET'', URL_String = ''/products'',
                       Header = [(''User-Agent'', [''curl/8.0''])]\<rparr>"

definition sample_server :: ProxyServer where
  "sample_server =
     \<lparr>origin = \<lparr>Scheme = ''http'', Opaque = [], Host = ''dummyjson.com'', Path = [],
                RawQuery = [], Fragment = []\<rparr>,
      cache = NewCache, port = 3000\<rparr>"

definition sample_upstream :: "call list" where
  "sample_upstream =
     [HeaderAdd ''Content-Type'' ''application/json'', WriteHeader 200, Write ''{}'']"

definition sample_entry :: CacheEntry where
  "sample_entry = \<lparr>Body = ''{}'', Headers = [(''Content-Type'', [''application/json''])],
                     StatusCode = 200, Timestamp = sample_now, TTL = 5 * Minute\<rparr>"

definition warm_server :: ProxyServer where
  "warm_server =
     sample_server\<lparr>cache :=
       Cache_Set NewCache (generateCacheKey sample_Sum sample_request) sample_entry\<rparr>"

text \<open>Two requests that differ in URL and User-Agent.\<close>

definition colon_request_1 :: Request where
  "colon_request_1 = \<lparr>Method = ''GET'', URL_String = ''/a:b'',
                        Header = [(''User-Agent'', [''c''])]\<rparr>"

definition colon_request_2 :: Request where
  "colon_request_2 = \<lparr>Method = ''GET'', URL_String = ''/a'',
                        Header = [(''User-Agent'', [''b:c''])]\<rparr>"

section \<open>Properties of the cache store\<close>

lemma Since_exact:
  "minDuration \<le> now - t \<Longrightarrow> now - t \<le> maxDuration \<Longrightarrow> Since now t = now - t"
  by (simp add: Since_def Sub_def)

lemma Cache_Size_drop:
  assumes "fmlookup (entries c) key = Some e"
  shows "Cache_Size (c\<lparr>entries := fmdrop key (entries c)\<rparr>) = Cache_Size c - 1"
proof -
  from assms have mem: "key |\<in>| fmdom (entries c)"
    by (rule fmdomI)
  then have "fcard (fmdom (entries c)) = Suc (fcard (fmdom (entries c) |-| {|key|}))"
    by (rule fcard_Suc_fminus1 [symmetric])
  then show ?thesis
    by (simp add: Cache_Size_def)
qed

text \<open>
  C4. \<^verbatim>\<open>Get\<close> returns an entry exactly when the key is in the store and the time
  since the entry was stamped is at most its time to live. When the key is in the store
  and the entry is stale, \<^verbatim>\<open>Get\<close> finds nothing, the key is gone from the store after
  the call, and \<^verbatim>\<open>Size\<close> is one less than before.
\<close>

theorem Cache_Get_fresh_iff:
  "(fst (Cache_Get c now key) = Some e \<longleftrightarrow>
      fmlookup (entries c) key = Some e \<and> Since now (Timestamp e) \<le> TTL e) \<and>
   (fmlookup (entries c) key = Some e \<and> \<not> Since now (Timestamp e) \<le> TTL e \<longrightarrow>
      fst (Cache_Get c now key) = None \<and>
      fmlookup (entries (snd (Cache_Get c now key))) key = None \<and>
      Cache_Size (snd (Cache_Get c now key)) = Cache_Size c - 1)"
proof (cases "fmlookup (entries c) key")
  case None
  then show ?thesis by (simp add: Cache_Get_def)
next
  case (Some entry)
  show ?thesis
  proof (cases "Since now (Timestamp entry) \<le> TTL entry")
    case True
    with Some show ?thesis by (auto simp: Cache_Get_def)
  next
    case False
    with Some Cache_Size_drop [OF Some] show ?thesis by (auto simp: Cache_Get_def)
  qed
qed

theorem Cache_Get_fresh_iff_witness:
  "fmlookup (entries expired_cache) ''expired-key'' = Some expired_entry \<and>
   \<not> Since sample_now (Timestamp expired_entry) \<le> TTL expired_entry \<and>
   fst (Cache_Get expired_cache sample_now ''expired-key'') = None \<and>
   fmlookup (entries (snd (Cache_Get expired_cache sample_now ''expired-key''))) ''expired-key'' = None \<and>
   Cache_Size expired_cache = 1 \<and>
   Cache_Size (snd (Cache_Get expired_cache sample_now ''expired-key'')) = 0 \<and>
   fst (Cache_Get expired_cache (sample_now - Minute) ''expired-key'') = Some expired_entry"
proof -
  have look: "fmlookup (entries expired_cache) ''expired-key'' = Some expired_entry"
    by (simp add: expired_cache_def Cache_Set_def NewCache_def)
  have stale: "\<not> Since sample_now (Timestamp expired_entry) \<le> TTL expired_entry"
    by (simp add: expired_entry_def sample_now_def Minute_def Since_def Sub_def
        maxDuration_def minDuration_def)
  have fresh: "Since (sample_now - Minute) (Timestamp expired_entry) \<le> TTL expired_entry"
    by (simp add: expired_entry_def sample_now_def Minute_def Since_def Sub_def
        maxDuration_def minDuration_def)
  have size1: "Cache_Size expired_cache = 1"
    by (simp add: expired_cache_def Cache_Set_def NewCache_def Cache_Size_def fcard_finsert_if)
  from look stale fresh size1
    Cache_Get_fresh_iff [of expired_cache sample_now "''expired-key''" expired_entry]
    Cache_Get_fresh_iff [of expired_cache "sample_now - Minute" "''expired-key''" expired_entry]
  show ?thesis by simp
qed

text \<open>
  C8. After \<^verbatim>\<open>Clear()\<close> the store is empty: \<^verbatim>\<open>Size()\<close> is 0, and \<^verbatim>\<open>Get\<close> finds
  no key at any time, whatever the store held before.
\<close>

theorem Cache_Clear_empty:
  "Cache_Size (Cache_Clear c) = 0 \<and>
   (\<forall>key now. fst (Cache_Get (Cache_Clear c) now key) = None)"
  by (simp add: Cache_Size_def Cache_Clear_def Cache_Get_def)


lemma Cache_Get_miss_store:
  "fst (Cache_Get c now key) = None \<Longrightarrow>
   fmlookup (entries (snd (Cache_Get c now key))) key = None \<and>
   (\<forall>k. k \<noteq> key \<longrightarrow> fmlookup (entries (snd (Cache_Get c now key))) k = fmlookup (entries c) k) \<and>
   (fmlookup (entries c) key = None \<longrightarrow> snd (Cache_Get c now key) = c)"
  by (auto simp: Cache_Get_def split: option.splits if_splits)

section \<open>Properties of calls running side by side\<close>

text \<open>
  A call that runs with no other call beside it, on a store no writer holds, ends in the
  result and the store of the method as defined above.
\<close>

lemma Get_alone:
  "\<not> writer (mutex c) \<Longrightarrow>
   run [0, 0, 0, 0] (c, [Get_RLock key now]) =
     Some (snd (Cache_Get c now key), [Returned (fst (Cache_Get c now key))])"
  by (simp add: step_def Cache_Get_def split: option.splits)

lemma Set_alone:
  "\<not> writer (mutex c) \<Longrightarrow> readers (mutex c) = 0 \<Longrightarrow>
   run [0, 0, 0] (c, [Set_Lock key entry]) = Some (Cache_Set c key entry, [Returned None])"
  by (simp add: step_def Cache_Set_def)

lemma Clear_alone:
  "\<not> writer (mutex c) \<Longrightarrow> readers (mutex c) = 0 \<Longrightarrow>
   run [0, 0, 0] (c, [Clear_Lock]) = Some (Cache_Clear c, [Returned None])"
  by (simp add: step_def Cache_Clear_def)

text \<open>
  C3. Two goroutines call \<^verbatim>\<open>Get\<close> for the key of a stale entry. After each has
  taken the read lock and looked the key up, both stand before the \<^verbatim>\<open>delete\<close>: two
  writes of the map are due, the mutex is held by two readers and by no writer.
\<close>

theorem Get_delete_under_read_lock:
  "\<exists>c. run [0, 1, 0, 1]
          (expired_cache,
           [Get_RLock ''expired-key'' sample_now, Get_RLock ''expired-key'' sample_now]) =
        Some (c, [Get_delete ''expired-key'', Get_delete ''expired-key'']) \<and>
       writesMap (Get_delete ''expired-key'') \<and>
       readers (mutex c) = 2 \<and> \<not> writer (mutex c)"
  by (simp add: step_def expired_cache_def expired_entry_def Cache_Set_def NewCache_def
      sample_now_def Minute_def Since_def Sub_def maxDuration_def minDuration_def)


section \<open>Properties of the cache key\<close>

lemma canon_User_Agent: "CanonicalMIMEHeaderKey ''User-Agent'' = ''User-Agent''"
  by code_simp

lemma canon_X_Cache: "CanonicalMIMEHeaderKey ''X-Cache'' = ''X-Cache''"
  by code_simp

lemma canon_Content_Type: "CanonicalMIMEHeaderKey ''Content-Type'' = ''Content-Type''"
  by code_simp

text \<open>Equal method, URL and User-Agent give equal keys.\<close>

lemma generateCacheKey_deterministic:
  "Method r1 = Method r2 \<Longrightarrow> URL_String r1 = URL_String r2 \<Longrightarrow>
   Header_Get (Header r1) ''User-Agent'' = Header_Get (Header r2) ''User-Agent'' \<Longrightarrow>
   generateCacheKey md5_Sum r1 = generateCacheKey md5_Sum r2"
  by (simp add: generateCacheKey_def)

lemma colon_split:
  assumes "a @ CHR '':'' # b = a' @ CHR '':'' # b'"
    and "CHR '':'' \<notin> set a" and "CHR '':'' \<notin> set a'"
  shows "a = a' \<and> b = b'"
proof -
  have "takeWhile (\<lambda>c. c \<noteq> CHR '':'') (a @ CHR '':'' # b) = a"
    using assms(2) by (subst takeWhile_append2) auto
  moreover have "takeWhile (\<lambda>c. c \<noteq> CHR '':'') (a' @ CHR '':'' # b') = a'"
    using assms(3) by (subst takeWhile_append2) auto
  ultimately have "a = a'" using assms(1) by simp
  with assms(1) show ?thesis by simp
qed

lemma EncodeToString_inj: "EncodeToString x = EncodeToString y \<Longrightarrow> x = y"
proof (induction x arbitrary: y)
  case Nil
  then show ?case by (cases y) (simp_all add: EncodeToString_def)
next
  case (Cons c x)
  then obtain d y' where y: "y = d # y'"
    by (cases y) (simp_all add: EncodeToString_def)
  let ?hex = "''0123456789abcdef''"
  from Cons.prems y have
    hi: "?hex ! ((of_char c :: nat) div 16) = ?hex ! ((of_char d :: nat) div 16)" and
    lo: "?hex ! ((of_char c :: nat) mod 16) = ?hex ! ((of_char d :: nat) mod 16)" and
    rest: "EncodeToString x = EncodeToString y'"
    by (simp_all add: EncodeToString_def)
  have dist: "distinct ?hex" by simp
  have len: "length ?hex = 16" by simp
  have c256: "(of_char c :: nat) < 256" "(of_char d :: nat) < 256"
    by simp_all
  then have b: "(of_char c :: nat) div 16 < 16" "(of_char d :: nat) div 16 < 16"
    by presburger+
  from hi dist b have "(of_char c :: nat) div 16 = of_char d div 16"
    using nth_eq_iff_index_eq [OF dist, of "of_char c div 16" "of_char d div 16"] len by simp
  moreover from lo dist have "(of_char c :: nat) mod 16 = of_char d mod 16"
    using nth_eq_iff_index_eq [OF dist, of "of_char c mod 16" "of_char d mod 16"] len by simp
  ultimately have "(of_char c :: nat) = of_char d"
    by (metis div_mult_mod_eq)
  then have "c = d" by simp
  with Cons.IH [OF rest] y show ?case by simp
qed

text \<open>
  Where the digest has no collision, and neither the methods nor the URLs hold a colon,
  equal keys come from equal method, URL and User-Agent only.
\<close>

lemma generateCacheKey_inj:
  assumes "inj md5_Sum"
    and "generateCacheKey md5_Sum r1 = generateCacheKey md5_Sum r2"
    and "CHR '':'' \<notin> set (Method r1)" and "CHR '':'' \<notin> set (Method r2)"
    and "CHR '':'' \<notin> set (URL_String r1)" and "CHR '':'' \<notin> set (URL_String r2)"
  shows "Method r1 = Method r2 \<and> URL_String r1 = URL_String r2 \<and>
         Header_Get (Header r1) ''User-Agent'' = Header_Get (Header r2) ''User-Agent''"
proof -
  from assms(2) have "md5_Sum (Sprintf (Method r1) (URL_String r1) (Header_Get (Header r1) ''User-Agent'')) =
      md5_Sum (Sprintf (Method r2) (URL_String r2) (Header_Get (Header r2) ''User-Agent''))"
    by (simp add: generateCacheKey_def Let_def EncodeToString_inj)
  with assms(1) have eq: "Sprintf (Method r1) (URL_String r1) (Header_Get (Header r1) ''User-Agent'') =
      Sprintf (Method r2) (URL_String r2) (Header_Get (Header r2) ''User-Agent'')"
    by (simp add: inj_eq)
  then have "Method r1 @ CHR '':'' # (URL_String r1 @ '':'' @ Header_Get (Header r1) ''User-Agent'') =
      Method r2 @ CHR '':'' # (URL_String r2 @ '':'' @ Header_Get (Header r2) ''User-Agent'')"
    by (simp add: Sprintf_def)
  from colon_split [OF this assms(3) assms(4)] have m: "Method r1 = Method r2" and
    r: "URL_String r1 @ CHR '':'' # Header_Get (Header r1) ''User-Agent'' =
        URL_String r2 @ CHR '':'' # Header_Get (Header r2) ''User-Agent''"
    by simp_all
  from colon_split [OF r assms(5) assms(6)] m show ?thesis by simp
qed

text \<open>
  C5. The separator is the colon, which a URL and a User-Agent may hold. The request for
  \<^verbatim>\<open>/a:b\<close> with User-Agent \<^verbatim>\<open>c\<close> and the request for \<^verbatim>\<open>/a\<close> with User-Agent
  \<^verbatim>\<open>b:c\<close> are joined to the same text \<^verbatim>\<open>GET:/a:b:c\<close>, so they get the same key
  under every digest.
\<close>

theorem generateCacheKey_colon_collision:
  "URL_String colon_request_1 \<noteq> URL_String colon_request_2 \<and>
   Header_Get (Header colon_request_1) ''User-Agent'' \<noteq>
     Header_Get (Header colon_request_2) ''User-Agent'' \<and>
   Sprintf (Method colon_request_1) (URL_String colon_request_1)
       (Header_Get (Header colon_request_1) ''User-Agent'') = ''GET:/a:b:c'' \<and>
   Sprintf (Method colon_request_2) (URL_String colon_request_2)
       (Header_Get (Header colon_request_2) ''User-Agent'') = ''GET:/a:b:c'' \<and>
   generateCacheKey md5_Sum colon_request_1 = generateCacheKey md5_Sum colon_request_2"
  by (simp add: generateCacheKey_def Sprintf_def colon_request_1_def colon_request_2_def
      Header_Get_def Header_Values_def canon_User_Agent)

section \<open>Properties of the construction\<close>

text \<open>The two constructions of the repository's test, on the model of the parser.\<close>

lemma url_Parse_example: 
  "url_Parse ''http://example.com'' =
     Inr \<lparr>Scheme = ''http'', Opaque = [], Host = ''example.com'', Path = [], RawQuery = [],
          Fragment = []\<rparr>"
  by code_simp

lemma url_Parse_invalid: "url_Parse ''://invalid-url'' = Inl MissingProtocolScheme"
  by code_simp

lemma url_Parse_relative:
  "url_Parse ''example.com'' =
     Inr \<lparr>Scheme = [], Opaque = [], Host = [], Path = ''example.com'', RawQuery = [],
          Fragment = []\<rparr>"
  by code_simp

lemma plain_relative: "plain ''example.com''"
  by code_simp

lemma NewProxyServer_test:
  "NewProxyServer url_Parse ''http://example.com'' 8080 =
     Inr \<lparr>origin = \<lparr>Scheme = ''http'', Opaque = [], Host = ''example.com'', Path = [],
                    RawQuery = [], Fragment = []\<rparr>,
          cache = NewCache, port = 8080\<rparr>"
  "NewProxyServer url_Parse ''://invalid-url'' 8080 = Inl (InvalidOriginURL MissingProtocolScheme)"
  by (simp_all add: NewProxyServer_def url_Parse_example url_Parse_invalid)

text \<open>
  C9. The origin \<^verbatim>\<open>example.com\<close> is not an absolute URL: it parses as a relative
  reference with the path \<^verbatim>\<open>example.com\<close>, no scheme and no host. The construction
  checks the parser's error only, so it succeeds and returns a server whose origin has
  neither the scheme nor the host the handler copies into every request it forwards.
\<close>

theorem NewProxyServer_accepts_relative:
  "NewProxyServer url_Parse ''example.com'' 8080 =
     Inr \<lparr>origin = \<lparr>Scheme = [], Opaque = [], Host = [], Path = ''example.com'',
                    RawQuery = [], Fragment = []\<rparr>,
          cache = NewCache, port = 8080\<rparr> \<and>
   \<not> IsAbs \<lparr>Scheme = [], Opaque = [], Host = [], Path = ''example.com'',
             RawQuery = [], Fragment = []\<rparr>"
  by (simp add: NewProxyServer_def url_Parse_relative IsAbs_def)

section \<open>Properties of the response recorder\<close>

lemma written_Cons: "written (c # cs) = written [c] @ written cs"
  by (cases c) simp_all

lemma lastStatus_Cons: "lastStatus s (c # cs) = lastStatus (lastStatus s [c]) cs"
  by (cases c) simp_all

lemma headerCalls_Cons: "headerCalls h (c # cs) = headerCalls (headerCalls h [c]) cs"
  by (cases c) simp_all

text \<open>What the recorder holds after the calls: the body, the status and the header map.\<close>

lemma recorder_call_captures:
  "recorder_call rr c = Some rr' \<Longrightarrow>
   body rr' = body rr @ written [c] \<and>
   statusCode rr' = lastStatus (statusCode rr) [c] \<and>
   headers rr' = headerCalls (headers rr) [c]"
  by (cases c)
    (auto simp: responseRecorder_Header_def responseRecorder_WriteHeader_def
      responseRecorder_Write_def split: option.splits)

lemma ServeHTTP_captures:
  "ServeHTTP rr cs = Some rr' \<Longrightarrow>
   body rr' = body rr @ written cs \<and>
   statusCode rr' = lastStatus (statusCode rr) cs \<and>
   headers rr' = headerCalls (headers rr) cs"
proof (induction cs arbitrary: rr)
  case Nil
  then show ?case by simp
next
  case (Cons c cs)
  from Cons.prems obtain rr1 where
    step: "recorder_call rr c = Some rr1" and rest: "ServeHTTP rr1 cs = Some rr'"
    by (auto split: option.splits)
  from recorder_call_captures [OF step] Cons.IH [OF rest]
  show ?case
    using written_Cons [of c cs] lastStatus_Cons [of "statusCode rr" c cs]
      headerCalls_Cons [of "headers rr" c cs]
    by simp
qed

text \<open>With status codes the writer accepts, the run of the calls ends without a panic.\<close>

lemma recorder_call_total:
  "validCodes [c] \<Longrightarrow> \<exists>rr'. recorder_call rr c = Some rr'"
  by (cases c)
    (auto simp: validCodes_def responseRecorder_WriteHeader_def response_WriteHeader_def)

lemma ServeHTTP_total:
  "validCodes cs \<Longrightarrow> \<exists>rr'. ServeHTTP rr cs = Some rr'"
proof (induction cs arbitrary: rr)
  case Nil
  then show ?case by simp
next
  case (Cons c cs)
  from Cons.prems have "validCodes [c]" and v: "validCodes cs"
    by (auto simp: validCodes_def)
  then obtain rr1 where step: "recorder_call rr c = Some rr1"
    using recorder_call_total by blast
  with Cons.IH [OF v, of rr1] show ?case by simp
qed

text \<open>
  What reaches the client-facing writer behind the recorder: every byte written, in order;
  no change of its header map; and, once the header is written, the header map the
  writer had before the calls.
\<close>

lemma recorder_call_passes:
  "recorder_call rr c = Some rr' \<Longrightarrow>
   sentBody (ResponseWriter rr') = sentBody (ResponseWriter rr) @ written [c] \<and>
   handlerHeader (ResponseWriter rr') = handlerHeader (ResponseWriter rr) \<and>
   (wroteHeader (ResponseWriter rr) \<longrightarrow>
      wroteHeader (ResponseWriter rr') \<and>
      sentHeader (ResponseWriter rr') = sentHeader (ResponseWriter rr) \<and>
      status (ResponseWriter rr') = status (ResponseWriter rr)) \<and>
   (wroteHeader (ResponseWriter rr') \<and> \<not> wroteHeader (ResponseWriter rr) \<longrightarrow>
      sentHeader (ResponseWriter rr') = handlerHeader (ResponseWriter rr))"
  by (cases c)
    (auto simp: responseRecorder_Header_def responseRecorder_WriteHeader_def
      responseRecorder_Write_def response_WriteHeader_def response_Write_def commit_def Let_def
      split: option.splits if_splits)

lemma ServeHTTP_passes:
  "ServeHTTP rr cs = Some rr' \<Longrightarrow>
   sentBody (ResponseWriter rr') = sentBody (ResponseWriter rr) @ written cs \<and>
   handlerHeader (ResponseWriter rr') = handlerHeader (ResponseWriter rr) \<and>
   (wroteHeader (ResponseWriter rr) \<longrightarrow>
      wroteHeader (ResponseWriter rr') \<and>
      sentHeader (ResponseWriter rr') = sentHeader (ResponseWriter rr) \<and>
      status (ResponseWriter rr') = status (ResponseWriter rr)) \<and>
   (wroteHeader (ResponseWriter rr') \<and> \<not> wroteHeader (ResponseWriter rr) \<longrightarrow>
      sentHeader (ResponseWriter rr') = handlerHeader (ResponseWriter rr))"
proof (induction cs arbitrary: rr)
  case Nil
  then show ?case by simp
next
  case (Cons c cs)
  from Cons.prems obtain rr1 where
    step: "recorder_call rr c = Some rr1" and rest: "ServeHTTP rr1 cs = Some rr'"
    by (auto split: option.splits)
  from recorder_call_passes [OF step] Cons.IH [OF rest]
  show ?case
    using written_Cons [of c cs] by auto
qed

section \<open>Properties of the request handler\<close>

subsection \<open>The miss path\<close>

lemma handleRequest_miss:
  assumes miss: "fst (Cache_Get (cache ps) t_get (generateCacheKey md5_Sum req)) = None"
    and fwd: "ServeHTTP \<lparr>ResponseWriter = w, statusCode = 200, headers = [], body = []\<rparr> upstream
              = Some rr"
  shows "handleRequest md5_Sum ps t_get t_set upstream w req =
     Some ((ResponseWriter rr)
             \<lparr>handlerHeader := Header_Set (handlerHeader (ResponseWriter rr)) ''X-Cache'' ''MISS''\<rparr>,
           ps\<lparr>cache :=
             (if 200 \<le> statusCode rr \<and> statusCode rr < 400
              then Cache_Set (snd (Cache_Get (cache ps) t_get (generateCacheKey md5_Sum req)))
                     (generateCacheKey md5_Sum req)
                     \<lparr>Body = body rr, Headers = headers rr, StatusCode = statusCode rr,
                      Timestamp = t_set, TTL = 5 * Minute\<rparr>
              else snd (Cache_Get (cache ps) t_get (generateCacheKey md5_Sum req)))\<rparr>)"
proof -
  obtain c1 where g: "Cache_Get (cache ps) t_get (generateCacheKey md5_Sum req) = (None, c1)"
    using miss by (cases "Cache_Get (cache ps) t_get (generateCacheKey md5_Sum req)") simp
  show ?thesis
    by (simp add: handleRequest_def Let_def g fwd)
qed

text \<open>
  On a miss with a writer that has sent nothing yet, the headers the client receives are
  those the writer held when the handler was called, as soon as the collaborator has
  written a status or a byte: neither the headers the collaborator set nor
  \<^verbatim>\<open>X-Cache: MISS\<close> are among them. Only when the collaborator wrote neither status
  nor body does the server send the header map with \<^verbatim>\<open>X-Cache: MISS\<close> in it.
\<close>

lemma miss_delivered_header:
  assumes miss: "fst (Cache_Get (cache ps) t_get (generateCacheKey md5_Sum req)) = None"
    and new: "\<not> wroteHeader w"
    and ret: "handleRequest md5_Sum ps t_get t_set upstream w req = Some (w', ps')"
  shows "sentHeader (finishRequest w') =
     (if wroteHeader w' then handlerHeader w
      else Header_Set (handlerHeader w) ''X-Cache'' ''MISS'')"
proof -
  let ?rr0 = "\<lparr>ResponseWriter = w, statusCode = 200, headers = [], body = []\<rparr>"
  obtain c1 where g: "Cache_Get (cache ps) t_get (generateCacheKey md5_Sum req) = (None, c1)"
    using miss by (cases "Cache_Get (cache ps) t_get (generateCacheKey md5_Sum req)") simp
  from ret obtain rr where fwd: "ServeHTTP ?rr0 upstream = Some rr"
    by (auto simp: handleRequest_def Let_def g split: option.splits)
  from handleRequest_miss [OF miss fwd, of t_set] ret have w':
    "w' = (ResponseWriter rr)
            \<lparr>handlerHeader := Header_Set (handlerHeader (ResponseWriter rr)) ''X-Cache'' ''MISS''\<rparr>"
    by simp
  from ServeHTTP_passes [OF fwd] new show ?thesis
    by (auto simp: w' finishRequest_def commit_def)
qed

text \<open>The bytes the client receives on a miss are the bytes the collaborator wrote, in order.\<close>

lemma miss_delivered_body:
  assumes miss: "fst (Cache_Get (cache ps) t_get (generateCacheKey md5_Sum req)) = None"
    and ret: "handleRequest md5_Sum ps t_get t_set upstream w req = Some (w', ps')"
  shows "sentBody (finishRequest w') = sentBody w @ written upstream"
proof -
  let ?rr0 = "\<lparr>ResponseWriter = w, statusCode = 200, headers = [], body = []\<rparr>"
  obtain c1 where g: "Cache_Get (cache ps) t_get (generateCacheKey md5_Sum req) = (None, c1)"
    using miss by (cases "Cache_Get (cache ps) t_get (generateCacheKey md5_Sum req)") simp
  from ret obtain rr where fwd: "ServeHTTP ?rr0 upstream = Some rr"
    by (auto simp: handleRequest_def Let_def g split: option.splits)
  from handleRequest_miss [OF miss fwd, of t_set] ret have w':
    "w' = (ResponseWriter rr)
            \<lparr>handlerHeader := Header_Set (handlerHeader (ResponseWriter rr)) ''X-Cache'' ''MISS''\<rparr>"
    by simp
  from ServeHTTP_passes [OF fwd] show ?thesis
    by (simp add: w' finishRequest_def commit_def)
qed

text \<open>
  C6. On a miss, with status codes the writer accepts, the handler returns. Whenever it
  returns: if the status the recorder observed is in [200, 400), the store after the
  handler is the store after the lookup with one entry set under the key, holding the
  captured body, headers and status, stamped with the clock and with a time to live of
  five minutes; for every other status the store is the store after the lookup, so no
  entry is set, every other key is as before the handler, and the whole server is as
  before when the key was not in the store.
\<close>

theorem handleRequest_miss_status_gate:
  assumes miss: "fst (Cache_Get (cache ps) t_get (generateCacheKey md5_Sum req)) = None"
  shows "(validCodes upstream \<longrightarrow>
            (\<exists>w' ps'. handleRequest md5_Sum ps t_get t_set upstream w req = Some (w', ps'))) \<and>
     (\<forall>w' ps'. handleRequest md5_Sum ps t_get t_set upstream w req = Some (w', ps') \<longrightarrow>
       (200 \<le> lastStatus 200 upstream \<and> lastStatus 200 upstream < 400 \<longrightarrow>
          cache ps' =
            Cache_Set (snd (Cache_Get (cache ps) t_get (generateCacheKey md5_Sum req)))
              (generateCacheKey md5_Sum req)
              \<lparr>Body = written upstream, Headers = headerCalls [] upstream,
               StatusCode = lastStatus 200 upstream, Timestamp = t_set, TTL = 5 * Minute\<rparr> \<and>
          fmlookup (entries (cache ps')) (generateCacheKey md5_Sum req) =
            Some \<lparr>Body = written upstream, Headers = headerCalls [] upstream,
                  StatusCode = lastStatus 200 upstream, Timestamp = t_set, TTL = 5 * Minute\<rparr>) \<and>
       (lastStatus 200 upstream < 200 \<or> 400 \<le> lastStatus 200 upstream \<longrightarrow>
          cache ps' = snd (Cache_Get (cache ps) t_get (generateCacheKey md5_Sum req)) \<and>
          (\<forall>k. k \<noteq> generateCacheKey md5_Sum req \<longrightarrow>
             fmlookup (entries (cache ps')) k = fmlookup (entries (cache ps)) k) \<and>
          (fmlookup (entries (cache ps)) (generateCacheKey md5_Sum req) = None \<longrightarrow> ps' = ps)))"
proof (intro conjI impI allI)
  let ?rr0 = "\<lparr>ResponseWriter = w, statusCode = 200, headers = [], body = []\<rparr>"
  assume "validCodes upstream"
  from ServeHTTP_total [OF this] obtain rr where "ServeHTTP ?rr0 upstream = Some rr"
    by blast
  from handleRequest_miss [OF miss this, of t_set]
  show "\<exists>w' ps'. handleRequest md5_Sum ps t_get t_set upstream w req = Some (w', ps')"
    by blast
next
  fix w' ps'
  let ?key = "generateCacheKey md5_Sum req"
  let ?rr0 = "\<lparr>ResponseWriter = w, statusCode = 200, headers = [], body = []\<rparr>"
  let ?entry = "\<lparr>Body = written upstream, Headers = headerCalls [] upstream,
                 StatusCode = lastStatus 200 upstream, Timestamp = t_set, TTL = 5 * Minute\<rparr>"
  assume ret: "handleRequest md5_Sum ps t_get t_set upstream w req = Some (w', ps')"
  obtain c1 where g: "Cache_Get (cache ps) t_get ?key = (None, c1)"
    using miss by (cases "Cache_Get (cache ps) t_get ?key") simp
  from ret obtain rr where fwd: "ServeHTTP ?rr0 upstream = Some rr"
    by (auto simp: handleRequest_def Let_def g split: option.splits)
  from ServeHTTP_captures [OF fwd] have cap:
    "body rr = written upstream" "statusCode rr = lastStatus 200 upstream"
    "headers rr = headerCalls [] upstream"
    by simp_all
  note store = Cache_Get_miss_store [OF miss]
  note ps' = handleRequest_miss [OF miss fwd, of t_set]
  {
    assume "200 \<le> lastStatus 200 upstream \<and> lastStatus 200 upstream < 400"
    with ps' ret cap show "cache ps' = Cache_Set (snd (Cache_Get (cache ps) t_get ?key)) ?key ?entry"
      by simp
    then show "fmlookup (entries (cache ps')) ?key = Some ?entry"
      by (simp add: Cache_Set_def)
  }
  {
    assume out: "lastStatus 200 upstream < 200 \<or> 400 \<le> lastStatus 200 upstream"
    with ps' ret cap show unchanged: "cache ps' = snd (Cache_Get (cache ps) t_get ?key)"
      by auto
    {
      fix k
      assume "k \<noteq> ?key"
      with unchanged store show "fmlookup (entries (cache ps')) k = fmlookup (entries (cache ps)) k"
        by simp
    }
    {
      assume "fmlookup (entries (cache ps)) ?key = None"
      with store have "snd (Cache_Get (cache ps) t_get ?key) = cache ps"
        by simp
      with out ps' ret cap show "ps' = ps"
        by auto
    }
  }
qed

text \<open>
  C10. On a miss, when the collaborator never calls \<^verbatim>\<open>WriteHeader\<close>, the handler
  returns, the recorder holds the status 200 it started with, and the store holds under
  the key an entry with status 200 and the bytes written.
\<close>

theorem handleRequest_implicit_200:
  assumes miss: "fst (Cache_Get (cache ps) t_get (generateCacheKey md5_Sum req)) = None"
    and none: "\<forall>code. WriteHeader code \<notin> set upstream"
  shows "\<exists>rr w' ps'.
     ServeHTTP \<lparr>ResponseWriter = w, statusCode = 200, headers = [], body = []\<rparr> upstream = Some rr \<and>
     statusCode rr = 200 \<and>
     handleRequest md5_Sum ps t_get t_set upstream w req = Some (w', ps') \<and>
     fmlookup (entries (cache ps')) (generateCacheKey md5_Sum req) =
       Some \<lparr>Body = written upstream, Headers = headerCalls [] upstream,
             StatusCode = 200, Timestamp = t_set, TTL = 5 * Minute\<rparr>"
proof -
  let ?rr0 = "\<lparr>ResponseWriter = w, statusCode = 200, headers = [], body = []\<rparr>"
  from none have valid: "validCodes upstream"
    by (simp add: validCodes_def)
  from ServeHTTP_total [OF valid] obtain rr where fwd: "ServeHTTP ?rr0 upstream = Some rr"
    by blast
  from none have st: "lastStatus 200 upstream = 200"
  proof (induction upstream)
    case Nil
    then show ?case by simp
  next
    case (Cons c cs)
    then show ?case by (cases c) auto
  qed
  from ServeHTTP_captures [OF fwd] st have cap:
    "body rr = written upstream" "statusCode rr = 200"
    "headers rr = headerCalls [] upstream"
    by simp_all
  show ?thesis
    using handleRequest_miss [OF miss fwd, of t_set] cap fwd
    by (simp add: Cache_Set_def)
qed


lemma sample_miss:
  "fst (Cache_Get (cache sample_server) t (generateCacheKey md5_Sum sample_request)) = None"
  by (simp add: sample_server_def NewCache_def Cache_Get_def)

lemma sample_upstream_observed:
  "validCodes sample_upstream"
  "lastStatus 200 sample_upstream = 200"
  "written sample_upstream = ''{}''"
  "headerCalls [] sample_upstream = [(''Content-Type'', [''application/json''])]"
  by (simp_all add: sample_upstream_def validCodes_def Header_Add_def Header_Values_def
      canon_Content_Type)

theorem handleRequest_miss_status_gate_witness:
  "fst (Cache_Get (cache sample_server) sample_now (generateCacheKey sample_Sum sample_request))
     = None \<and>
   validCodes sample_upstream \<and>
   (\<exists>w' ps'.
      handleRequest sample_Sum sample_server sample_now sample_now sample_upstream newResponse
        sample_request = Some (w', ps') \<and>
      fmlookup (entries (cache ps')) (generateCacheKey sample_Sum sample_request) =
        Some sample_entry) \<and>
   validCodes [WriteHeader 404, Write ''not found''] \<and>
   (\<exists>w'.
      handleRequest sample_Sum sample_server sample_now sample_now
        [WriteHeader 404, Write ''not found''] newResponse sample_request =
        Some (w', sample_server))"
proof -
  have v: "validCodes [WriteHeader 404, Write ''not found'']"
    by (simp add: validCodes_def)
  have absent: "fmlookup (entries (cache sample_server))
      (generateCacheKey sample_Sum sample_request) = None"
    by (simp add: sample_server_def NewCache_def)
  note gate200 = handleRequest_miss_status_gate
    [OF sample_miss,
     where md5_Sum = sample_Sum and t_get = sample_now and t_set = sample_now and
       w = newResponse and upstream = sample_upstream]
  note gate404 = handleRequest_miss_status_gate
    [OF sample_miss,
     where md5_Sum = sample_Sum and t_get = sample_now and t_set = sample_now and
       w = newResponse and upstream = "[WriteHeader 404, Write ''not found'']"]
  from gate200 sample_upstream_observed(1) obtain w1 ps1 where
    ret1: "handleRequest sample_Sum sample_server sample_now sample_now sample_upstream
             newResponse sample_request = Some (w1, ps1)"
    by blast
  with gate200 have "fmlookup (entries (cache ps1)) (generateCacheKey sample_Sum sample_request) =
      Some sample_entry"
    by (simp add: sample_upstream_observed sample_entry_def Cache_Set_def)
  with ret1 have cached: "\<exists>w' ps'.
      handleRequest sample_Sum sample_server sample_now sample_now sample_upstream newResponse
        sample_request = Some (w', ps') \<and>
      fmlookup (entries (cache ps')) (generateCacheKey sample_Sum sample_request) =
        Some sample_entry"
    by blast
  from gate404 v obtain w2 ps2 where
    ret2: "handleRequest sample_Sum sample_server sample_now sample_now
             [WriteHeader 404, Write ''not found''] newResponse sample_request = Some (w2, ps2)"
    by blast
  with gate404 absent have "ps2 = sample_server"
    by simp
  with ret2 have skipped: "\<exists>w'.
      handleRequest sample_Sum sample_server sample_now sample_now
        [WriteHeader 404, Write ''not found''] newResponse sample_request =
        Some (w', sample_server)"
    by blast
  from sample_miss sample_upstream_observed(1) v cached skipped show ?thesis
    by blast
qed

theorem handleRequest_implicit_200_witness:
  "fst (Cache_Get (cache sample_server) sample_now (generateCacheKey sample_Sum sample_request))
     = None \<and>
   (\<forall>code. WriteHeader code \<notin> set [HeaderSet ''Content-Type'' ''text/plain'', Write ''ok'']) \<and>
   (\<exists>w' ps'.
      handleRequest sample_Sum sample_server sample_now sample_now
        [HeaderSet ''Content-Type'' ''text/plain'', Write ''ok''] newResponse sample_request =
        Some (w', ps') \<and>
      fmlookup (entries (cache ps')) (generateCacheKey sample_Sum sample_request) =
        Some \<lparr>Body = ''ok'', Headers = [(''Content-Type'', [''text/plain''])],
              StatusCode = 200, Timestamp = sample_now, TTL = 5 * Minute\<rparr>)"
proof -
  have none: "\<forall>code. WriteHeader code \<notin> set [HeaderSet ''Content-Type'' ''text/plain'', Write ''ok'']"
    by simp
  from handleRequest_implicit_200
    [OF sample_miss none,
     where md5_Sum = sample_Sum and t_get = sample_now and t_set = sample_now and w = newResponse]
  have "\<exists>w' ps'.
      handleRequest sample_Sum sample_server sample_now sample_now
        [HeaderSet ''Content-Type'' ''text/plain'', Write ''ok''] newResponse sample_request =
        Some (w', ps') \<and>
      fmlookup (entries (cache ps')) (generateCacheKey sample_Sum sample_request) =
        Some \<lparr>Body = ''ok'', Headers = [(''Content-Type'', [''text/plain''])],
              StatusCode = 200, Timestamp = sample_now, TTL = 5 * Minute\<rparr>"
    by (auto simp: Header_Set_def canon_Content_Type)
  with sample_miss none show ?thesis by blast
qed

text \<open>
  C1. An empty store, a request, and an origin that answers 200 with a body. The handler
  sets \<^verbatim>\<open>X-Cache: MISS\<close> in the header map of the writer after the reverse proxy has
  written status and body through the recorder: the header map holds it, the header sent
  to the client does not.
\<close>

theorem miss_header_set_after_write:
  "\<exists>w' ps'.
     handleRequest md5_Sum sample_server t_get t_set sample_upstream newResponse sample_request
       = Some (w', ps') \<and>
     wroteHeader w' \<and> status w' = 200 \<and> sentBody w' = ''{}'' \<and>
     Header_Values (handlerHeader w') ''X-Cache'' = [''MISS''] \<and>
     Header_Values (sentHeader (finishRequest w')) ''X-Cache'' = []"
  by (simp add: handleRequest_def Let_def sample_miss [simplified] sample_server_def NewCache_def
      Cache_Get_def sample_upstream_def newResponse_def responseRecorder_Header_def
      responseRecorder_WriteHeader_def responseRecorder_Write_def response_WriteHeader_def
      response_Write_def commit_def finishRequest_def Header_Set_def Header_Values_def
      canon_X_Cache)

text \<open>
  C2. The same request and answer. The \<^verbatim>\<open>Content-Type\<close> the reverse proxy adds to
  the map \<^verbatim>\<open>Header()\<close> returns goes to the recorder's own map, and from there into
  the cached entry; the header sent to the client has no \<^verbatim>\<open>Content-Type\<close>. Status and
  body do arrive. The same calls made on the writer itself would have sent the header.
\<close>

theorem recorder_headers_not_sent:
  "\<exists>w' ps' e w2.
     handleRequest md5_Sum sample_server t_get t_set sample_upstream newResponse sample_request
       = Some (w', ps') \<and>
     status (finishRequest w') = 200 \<and> sentBody (finishRequest w') = ''{}'' \<and>
     Header_Values (sentHeader (finishRequest w')) ''Content-Type'' = [] \<and>
     fmlookup (entries (cache ps')) (generateCacheKey md5_Sum sample_request) = Some e \<and>
     Header_Values (Headers e) ''Content-Type'' = [''application/json''] \<and>
     response_calls newResponse sample_upstream = Some w2 \<and>
     Header_Values (sentHeader (finishRequest w2)) ''Content-Type'' = [''application/json'']"
  by (simp add: handleRequest_def Let_def sample_server_def NewCache_def
      Cache_Get_def Cache_Set_def sample_upstream_def newResponse_def responseRecorder_Header_def
      responseRecorder_WriteHeader_def responseRecorder_Write_def response_WriteHeader_def
      response_Write_def commit_def finishRequest_def Header_Add_def Header_Values_def
      canon_Content_Type)

subsection \<open>The hit path\<close>

lemma Header_Values_Add:
  "Header_Values (Header_Add h k v) k' =
     (if CanonicalMIMEHeaderKey k = CanonicalMIMEHeaderKey k' then Header_Values h k' @ [v]
      else Header_Values h k')"
  by (simp add: Header_Values_def Header_Add_def update_conv')

lemma Header_Values_Set:
  "Header_Values (Header_Set h k v) k' =
     (if CanonicalMIMEHeaderKey k = CanonicalMIMEHeaderKey k' then [v] else Header_Values h k')"
  by (simp add: Header_Values_def Header_Set_def update_conv')

lemma Header_Values_Add_all:
  "Header_Values (foldl (\<lambda>h val. Header_Add h k val) h vals) k' =
     (if CanonicalMIMEHeaderKey k = CanonicalMIMEHeaderKey k' then Header_Values h k' @ vals
      else Header_Values h k')"
  by (induction vals arbitrary: h) (simp_all add: Header_Values_Add)

lemma Header_Values_copy:
  "Header_Values
     (foldl (\<lambda>h (key, vals). foldl (\<lambda>h val. Header_Add h key val) h vals) h hs) k' =
   Header_Values h k' @
     concat (map snd (filter (\<lambda>(key, vals). CanonicalMIMEHeaderKey key = CanonicalMIMEHeaderKey k') hs))"
proof (induction hs arbitrary: h)
  case Nil
  then show ?case by simp
next
  case (Cons p hs)
  obtain key vals where p: "p = (key, vals)" by (cases p)
  show ?case
    by (simp add: p Cons.IH Header_Values_Add_all)
qed

text \<open>
  C7. On a hit, with a writer that has sent nothing yet and an entry whose status is a
  final status code, the handler returns and leaves the server as it was. The client
  receives the entry's status and, after it, the entry's body. Under every name other than
  \<^verbatim>\<open>X-Cache\<close> the header sent holds the values the writer held followed by the
  entry's values for that name, in order; under \<^verbatim>\<open>X-Cache\<close> it holds \<^verbatim>\<open>HIT\<close>
  alone. The calls of the forwarding collaborator play no part: with any other calls, or
  none, the handler returns the same.
\<close>

theorem handleRequest_hit_replays:
  assumes hit: "fst (Cache_Get (cache ps) t_get (generateCacheKey md5_Sum req)) = Some e"
    and new: "\<not> wroteHeader w"
    and code: "200 \<le> StatusCode e \<and> StatusCode e \<le> 999"
  shows "\<exists>w'. handleRequest md5_Sum ps t_get t_set upstream w req = Some (w', ps) \<and>
     wroteHeader w' \<and> status w' = StatusCode e \<and> sentBody w' = sentBody w @ Body e \<and>
     (\<forall>k. Header_Values (sentHeader w') k =
        (if CanonicalMIMEHeaderKey k = ''X-Cache'' then [''HIT'']
         else Header_Values (handlerHeader w) k @
              concat (map snd (filter
                (\<lambda>(key, vals). CanonicalMIMEHeaderKey key = CanonicalMIMEHeaderKey k)
                (Headers e))))) \<and>
     handleRequest md5_Sum ps t_get t_set upstream w req =
       handleRequest md5_Sum ps t_get t_set [] w req"
proof -
  have g: "Cache_Get (cache ps) t_get (generateCacheKey md5_Sum req) = (Some e, cache ps)"
    using hit by (auto simp: Cache_Get_def split: option.splits if_splits)
  show ?thesis
    using new code
    by (auto simp: handleRequest_def Let_def g response_WriteHeader_def response_Write_def
        commit_def Header_Values_Set Header_Values_copy canon_X_Cache)
qed

theorem handleRequest_hit_replays_witness:
  "fst (Cache_Get (cache warm_server) (sample_now + Minute)
          (generateCacheKey sample_Sum sample_request)) = Some sample_entry \<and>
   \<not> wroteHeader newResponse \<and>
   200 \<le> StatusCode sample_entry \<and> StatusCode sample_entry \<le> 999 \<and>
   (\<exists>w'. handleRequest sample_Sum warm_server (sample_now + Minute) (sample_now + Minute)
            sample_upstream newResponse sample_request = Some (w', warm_server) \<and>
          status w' = 200 \<and> sentBody w' = ''{}'' \<and>
          Header_Values (sentHeader w') ''X-Cache'' = [''HIT''] \<and>
          Header_Values (sentHeader w') ''Content-Type'' = [''application/json''])"
proof -
  have hit: "fst (Cache_Get (cache warm_server) (sample_now + Minute)
      (generateCacheKey sample_Sum sample_request)) = Some sample_entry"
    by (simp add: warm_server_def sample_server_def Cache_Set_def NewCache_def Cache_Get_def
        sample_entry_def Since_def Sub_def Minute_def maxDuration_def minDuration_def)
  have new: "\<not> wroteHeader newResponse"
    by (simp add: newResponse_def)
  have code: "200 \<le> StatusCode sample_entry \<and> StatusCode sample_entry \<le> 999"
    by (simp add: sample_entry_def)
  have ct: "CanonicalMIMEHeaderKey ''Content-Type'' \<noteq> ''X-Cache''"
    by (simp add: canon_Content_Type)
  from handleRequest_hit_replays
    [OF hit new code, where t_set = "sample_now + Minute" and upstream = sample_upstream]
  obtain w' where
    ret: "handleRequest sample_Sum warm_server (sample_now + Minute) (sample_now + Minute)
            sample_upstream newResponse sample_request = Some (w', warm_server)" and
    st: "status w' = StatusCode sample_entry" and
    bd: "sentBody w' = sentBody newResponse @ Body sample_entry" and
    hd: "\<And>k. Header_Values (sentHeader w') k =
        (if CanonicalMIMEHeaderKey k = ''X-Cache'' then [''HIT'']
         else Header_Values (handlerHeader newResponse) k @
              concat (map snd (filter
                (\<lambda>(key, vals). CanonicalMIMEHeaderKey key = CanonicalMIMEHeaderKey k)
                (Headers sample_entry))))"
    by blast
  from st have "status w' = 200" by (simp add: sample_entry_def)
  moreover from bd have "sentBody w' = ''{}''" by (simp add: sample_entry_def newResponse_def)
  moreover from hd [of "''X-Cache''"] have "Header_Values (sentHeader w') ''X-Cache'' = [''HIT'']"
    by (simp add: canon_X_Cache)
  moreover from hd [of "''Content-Type''"] ct
  have "Header_Values (sentHeader w') ''Content-Type'' = [''application/json'']"
    by (simp add: sample_entry_def newResponse_def Header_Values_def canon_Content_Type)
  ultimately show ?thesis
    using hit new code ret by blast
qed

text \<open>
  Every entry the handler sets has a status in [200, 400), so the entries of a store
  that only the handler fills have a final status code.
\<close>

lemma handleRequest_keeps_status_range:
  assumes inv: "\<forall>k e. fmlookup (entries (cache ps)) k = Some e \<longrightarrow>
                  200 \<le> StatusCode e \<and> StatusCode e < 400"
    and ret: "handleRequest md5_Sum ps t_get t_set upstream w req = Some (w', ps')"
  shows "\<forall>k e. fmlookup (entries (cache ps')) k = Some e \<longrightarrow>
           200 \<le> StatusCode e \<and> StatusCode e < 400"
proof (cases "fst (Cache_Get (cache ps) t_get (generateCacheKey md5_Sum req))")
  case (Some e)
  then have "Cache_Get (cache ps) t_get (generateCacheKey md5_Sum req) = (Some e, cache ps)"
    by (auto simp: Cache_Get_def split: option.splits if_splits)
  with ret have "ps' = ps"
    by (auto simp: handleRequest_def Let_def split: option.splits)
  with inv show ?thesis by simp
next
  case None
  let ?key = "generateCacheKey md5_Sum req"
  let ?rr0 = "\<lparr>ResponseWriter = w, statusCode = 200, headers = [], body = []\<rparr>"
  obtain c1 where g: "Cache_Get (cache ps) t_get ?key = (None, c1)"
    using None by (cases "Cache_Get (cache ps) t_get ?key") simp
  from ret obtain rr where fwd: "ServeHTTP ?rr0 upstream = Some rr"
    by (auto simp: handleRequest_def Let_def g split: option.splits)
  have c1: "\<forall>k e. fmlookup (entries c1) k = Some e \<longrightarrow> 200 \<le> StatusCode e \<and> StatusCode e < 400"
    using g inv by (auto simp: Cache_Get_def split: option.splits if_splits)
  from handleRequest_miss [OF None fwd, of t_set] ret g c1 show ?thesis
    by (auto simp: Cache_Set_def split: if_splits)
qed

end
